theory Spec2Isabelle
  imports Complex_Main "HOL-Library.Sublist"
begin

section \<open>The Tesseract adapter of OCRmyPDF (\<^verbatim>\<open>ocrmypdf/exec/tesseract.py\<close>)\<close>

text \<open>
  Python text is modelled by \<^typ>\<open>string\<close>; a \<^typ>\<open>char\<close> stands for the code point of the
  same number, so the model covers texts whose code points are below 256. The substring test
  \<^verbatim>\<open>a in s\<close> is \<^const>\<open>sublist\<close>, and \<^verbatim>\<open>s.startswith(a)\<close> is \<^const>\<open>prefix\<close>.
\<close>

subsection \<open>Text primitives of Python\<close>

text \<open>\<^verbatim>\<open>str.isspace\<close> on one code point below 256.\<close>

definition is_space :: "char \<Rightarrow> bool" where
  "is_space c = (c \<in> {CHR 0x09, CHR 0x0A, CHR 0x0B, CHR 0x0C, CHR 0x0D,
                       CHR 0x1C, CHR 0x1D, CHR 0x1E, CHR 0x1F, CHR 0x20, CHR 0x85, CHR 0xA0})"

text \<open>\<^verbatim>\<open>str.strip()\<close>: white space is removed at both ends.\<close>

definition strip :: "string \<Rightarrow> string" where
  "strip s = rev (dropWhile is_space (rev (dropWhile is_space s)))"

text \<open>\<^verbatim>\<open>str.lower()\<close>: the upper-case letters below 256 are A-Z and the Latin-1 capitals.\<close>

definition lower_char :: "char \<Rightarrow> char" where
  "lower_char c =
     (let n = (of_char c :: nat)
      in if (65 \<le> n \<and> n \<le> 90) \<or> (192 \<le> n \<and> n \<le> 222 \<and> n \<noteq> 215)
         then char_of (n + 32) else c)"

definition lower :: "string \<Rightarrow> string" where
  "lower s = map lower_char s"

text \<open>The line boundaries of \<^verbatim>\<open>str.splitlines()\<close> below 256; CR LF is one boundary.\<close>

definition is_linebreak :: "char \<Rightarrow> bool" where
  "is_linebreak c = (c \<in> {CHR 0x0A, CHR 0x0B, CHR 0x0C, CHR 0x0D,
                           CHR 0x1C, CHR 0x1D, CHR 0x1E, CHR 0x85})"

fun splitlines_from :: "string \<Rightarrow> string \<Rightarrow> string list" where
  "splitlines_from cur [] = (if cur = [] then [] else [cur])"
| "splitlines_from cur [c] = (if is_linebreak c then [cur] else [cur @ [c]])"
| "splitlines_from cur (c # d # cs) =
     (if c = CHR 0x0D \<and> d = CHR 0x0A then cur # splitlines_from [] cs
      else if is_linebreak c then cur # splitlines_from [] (d # cs)
      else splitlines_from (cur @ [c]) (d # cs))"

definition splitlines :: "string \<Rightarrow> string list" where
  "splitlines s = splitlines_from [] s"

text \<open>\<^verbatim>\<open>s.split(sep, maxsplit=n)\<close> for a one-character separator.\<close>

fun split_from :: "char \<Rightarrow> nat \<Rightarrow> string \<Rightarrow> string \<Rightarrow> string list" where
  "split_from sep n cur [] = [cur]"
| "split_from sep 0 cur (c # cs) = [cur @ c # cs]"
| "split_from sep (Suc n) cur (c # cs) =
     (if c = sep then cur # split_from sep n [] cs
      else split_from sep (Suc n) (cur @ [c]) cs)"

definition split :: "char \<Rightarrow> nat \<Rightarrow> string \<Rightarrow> string list" where
  "split sep n s = split_from sep n [] s"

text \<open>Decimal digits, \<^verbatim>\<open>str(n)\<close> and the format \<^verbatim>\<open>{0:4d}\<close> (right-aligned in a field of
  at least four columns, padded with spaces).\<close>

definition digit_char :: "nat \<Rightarrow> char" where
  "digit_char d = char_of (48 + d)"

fun nat_digits :: "nat \<Rightarrow> string" where
  "nat_digits n = (if n < 10 then [digit_char n] else nat_digits (n div 10) @ [digit_char (n mod 10)])"

definition str_int :: "int \<Rightarrow> string" where
  "str_int i = (if i < 0 then CHR ''-'' # nat_digits (nat (- i)) else nat_digits (nat i))"

definition format_4d :: "int \<Rightarrow> string" where
  "format_4d i = (let s = str_int i in replicate (4 - length s) CHR '' '' @ s)"

text \<open>\<^verbatim>\<open>int(s)\<close> on text: white space around, an optional sign, decimal digits with single
  underscores between digits. \<open>None\<close> is the \<^verbatim>\<open>ValueError\<close>.\<close>

definition is_digit :: "char \<Rightarrow> bool" where
  "is_digit c = (48 \<le> (of_char c :: nat) \<and> (of_char c :: nat) \<le> 57)"

fun digits_value :: "nat \<Rightarrow> string \<Rightarrow> nat option" where
  "digits_value acc [] = Some acc"
| "digits_value acc [c] = (if is_digit c then Some (10 * acc + (of_char c - 48)) else None)"
| "digits_value acc (c # d # cs) =
     (if is_digit c then
        (if d = CHR ''_'' then
           (case cs of [] \<Rightarrow> None
            | e # es \<Rightarrow> if is_digit e then digits_value (10 * acc + (of_char c - 48)) cs else None)
         else digits_value (10 * acc + (of_char c - 48)) (d # cs))
      else None)"

definition py_int :: "string \<Rightarrow> int option" where
  "py_int s =
     (case strip s of
        [] \<Rightarrow> None
      | c # cs \<Rightarrow>
          if c = CHR ''-'' then (if cs = [] then None else map_option (\<lambda>n. - int n) (digits_value 0 cs))
          else if c = CHR ''+'' then (if cs = [] then None else map_option int (digits_value 0 cs))
          else map_option int (digits_value 0 (c # cs)))"

text \<open>The comparison \<^verbatim>\<open>a >= b\<close> of two texts: lexicographic on code points.\<close>

fun str_ge :: "string \<Rightarrow> string \<Rightarrow> bool" where
  "str_ge a [] = True"
| "str_ge [] (y # ys) = False"
| "str_ge (x # xs) (y # ys) =
     ((of_char x :: nat) > of_char y \<or> (x = y \<and> str_ge xs ys))"

subsection \<open>The logging collaborator\<close>

datatype level = DEBUG | INFO | WARNING | ERROR

text \<open>A record handed to the logger: a level and the message. \<^verbatim>\<open>log.debug(args)\<close> hands over
  the argument list itself.\<close>

datatype log_record = Msg level string | DebugArgs "string list"

subsection \<open>\<^verbatim>\<open>tesseract_log_output\<close>\<close>

text \<open>The page number comes from \<^verbatim>\<open>helpers.page_number\<close>, which is outside this file: the
  functions below take its value.\<close>

definition log_prefix :: "int \<Rightarrow> string" where
  "log_prefix page = format_4d page @ '': [tesseract] ''"

definition classify_line :: "string \<Rightarrow> string \<Rightarrow> log_record list" where
  "classify_line pfx line =
     (if prefix ''Tesseract Open Source'' line then []
      else if prefix ''Warning in pixReadMem'' line then []
      else if sublist ''diacritics'' line then
        [Msg WARNING (pfx @ ''lots of diacritics - possibly poor OCR'')]
      else if prefix ''OSD: Weak margin'' line then
        [Msg WARNING (pfx @ ''unsure about page orientation'')]
      else if sublist ''error'' (lower line) \<or> sublist ''exception'' (lower line) then
        [Msg ERROR (pfx @ strip line)]
      else if sublist ''warning'' (lower line) then
        [Msg WARNING (pfx @ strip line)]
      else if sublist ''read_params_file'' (lower line) then
        [Msg ERROR (pfx @ strip line)]
      else [Msg INFO (pfx @ strip line)])"

definition tesseract_log_output :: "int \<Rightarrow> string \<Rightarrow> log_record list" where
  "tesseract_log_output page stdout =
     concat (map (classify_line (log_prefix page)) (splitlines stdout))"

subsection \<open>The file system\<close>

text \<open>
  A path holds a regular file or a symbolic link. The content of a regular file is kept in
  the form its reader sees: text, a raster image with its pixel size, or a PDF with the
  size of each page. Paths are taken as absolute. Reading and writing follow links, at
  most \<open>max_links\<close> of them.
\<close>

type_synonym path = string

record page =
  page_width :: real
  page_height :: real
  page_blank :: bool

datatype content = Text string | Image nat nat | Pdf "page list"

datatype node = Regular content | Link path

type_synonym fs = "path \<rightharpoonup> node"

datatype error =
    MissingDependencyError
  | TesseractConfigError
  | CalledProcessError int string
  | AssertionError
  | ValueError
  | AttributeError
  | IndexError
  | FileNotFoundError
  | FileExistsError
  | OSError
  | PdfReadError
  | UnicodeDecodeError

definition max_links :: nat where
  "max_links = 40"

fun resolve :: "nat \<Rightarrow> fs \<Rightarrow> path \<Rightarrow> error + path" where
  "resolve 0 f p = (case f p of Some (Link q) \<Rightarrow> Inl OSError | _ \<Rightarrow> Inr p)"
| "resolve (Suc n) f p = (case f p of Some (Link q) \<Rightarrow> resolve n f q | _ \<Rightarrow> Inr p)"

definition read_file :: "fs \<Rightarrow> path \<Rightarrow> error + content" where
  "read_file f p =
     (case resolve max_links f p of
        Inl e \<Rightarrow> Inl e
      | Inr q \<Rightarrow> (case f q of Some (Regular c) \<Rightarrow> Inr c | _ \<Rightarrow> Inl FileNotFoundError))"

definition write_file :: "fs \<Rightarrow> path \<Rightarrow> content \<Rightarrow> error + fs" where
  "write_file f p c =
     (case resolve max_links f p of Inl e \<Rightarrow> Inl e | Inr q \<Rightarrow> Inr (f(q \<mapsto> Regular c)))"

text \<open>\<^verbatim>\<open>os.path.exists\<close> follows links; \<^verbatim>\<open>os.rename\<close> and \<^verbatim>\<open>os.symlink\<close> act on the
  path itself.\<close>

definition path_exists :: "fs \<Rightarrow> path \<Rightarrow> bool" where
  "path_exists f p = (case read_file f p of Inr c \<Rightarrow> True | Inl e \<Rightarrow> False)"

definition rename :: "fs \<Rightarrow> path \<Rightarrow> path \<Rightarrow> error + fs" where
  "rename f src dst =
     (case f src of None \<Rightarrow> Inl FileNotFoundError | Some n \<Rightarrow> Inr ((f(src := None))(dst \<mapsto> n)))"

definition symlink :: "fs \<Rightarrow> path \<Rightarrow> path \<Rightarrow> error + fs" where
  "symlink f target linkpath =
     (if f linkpath \<noteq> None then Inl FileExistsError else Inr (f(linkpath \<mapsto> Link target)))"

text \<open>\<^verbatim>\<open>os.path.splitext(p)[0]\<close>: the extension starts at the last dot of the last path
  component, unless only dots precede it there.\<close>

definition splitext_root :: "path \<Rightarrow> path" where
  "splitext_root p =
     (let base = rev (takeWhile (\<lambda>c. c \<noteq> CHR ''/'') (rev p));
          ext = rev (takeWhile (\<lambda>c. c \<noteq> CHR ''.'') (rev base));
          stem = take (length base - length ext - 1) base
      in if CHR ''.'' \<in> set base \<and> (\<exists>c \<in> set stem. c \<noteq> CHR ''.'')
         then take (length p - length ext - 1) p else p)"

subsection \<open>The engine and the other collaborators\<close>

text \<open>The outcome of \<^verbatim>\<open>subprocess.check_output\<close>: the captured output of a run that exits
  with status 0, or the status and output of one that does not; with a timeout, the run
  may also expire.\<close>

datatype completed = Returned string | NonZeroExit int string

datatype timed = Completed completed | Expired

text \<open>
  What lies outside the file is a parameter of the model: the path of the engine
  (\<^verbatim>\<open>get_program('tesseract')\<close>), the engine's answer to a query, the engine's run on a
  page (which may change files), the shell of \<^verbatim>\<open>os.system\<close>, the resolver
  \<^verbatim>\<open>page_number\<close>, and Python's \<^verbatim>\<open>float\<close> on text (\<open>None\<close> is its \<^verbatim>\<open>ValueError\<close>).
\<close>

record env =
  program :: string
  query :: "string list \<Rightarrow> completed"
  run :: "string list \<Rightarrow> real \<Rightarrow> fs \<Rightarrow> timed \<times> fs"
  system :: "string \<Rightarrow> fs \<Rightarrow> int \<times> fs"
  page_number :: "path \<Rightarrow> int"
  float_of :: "string \<Rightarrow> real option"

record state =
  logs :: "log_record list"
  files :: fs

subsection \<open>\<^verbatim>\<open>version\<close>, \<^verbatim>\<open>v4\<close>, \<^verbatim>\<open>has_textonly_pdf\<close>, \<^verbatim>\<open>psm\<close>, \<^verbatim>\<open>tess_base_args\<close>\<close>

text \<open>\<^verbatim>\<open>re.match(r'tesseract\s(.+)', versions).group(1)\<close>; \<open>None\<close> when there is no match.\<close>

definition match_version :: "string \<Rightarrow> string option" where
  "match_version s =
     (if prefix ''tesseract'' s then
        (case drop 9 s of
           [] \<Rightarrow> None
         | c # cs \<Rightarrow>
             if is_space c then
               (let v = takeWhile (\<lambda>x. x \<noteq> CHR 0x0A) cs in if v = [] then None else Some v)
             else None)
      else None)"

definition version :: "env \<Rightarrow> error + string" where
  "version e =
     (case query e [program e, ''--version''] of
        NonZeroExit rc out \<Rightarrow> Inl MissingDependencyError
      | Returned versions \<Rightarrow>
          (case match_version versions of None \<Rightarrow> Inl AttributeError | Some v \<Rightarrow> Inr v))"

definition v4 :: "env \<Rightarrow> error + bool" where
  "v4 e = (case version e of Inl err \<Rightarrow> Inl err | Inr v \<Rightarrow> Inr (str_ge v ''4''))"

text \<open>A Python value that is \<^verbatim>\<open>True\<close>, \<^verbatim>\<open>False\<close> or \<^verbatim>\<open>None\<close>, and its truth value.\<close>

datatype answer = PyBool bool | PyNone

fun truthy :: "answer \<Rightarrow> bool" where
  "truthy (PyBool b) = b"
| "truthy PyNone = False"

definition has_textonly_pdf :: "env \<Rightarrow> error + answer" where
  "has_textonly_pdf e =
     (case version e of
        Inl err \<Rightarrow> Inl err
      | Inr v \<Rightarrow>
          if v = ''4.00.00alpha'' then
            (case query e [program e, ''--print-parameters''] of
               NonZeroExit rc out \<Rightarrow> Inl MissingDependencyError
             | Returned params \<Rightarrow>
                 if sublist ''textonly_pdf'' params then Inr (PyBool True) else Inr PyNone)
          else (case v4 e of Inl err \<Rightarrow> Inl err | Inr b \<Rightarrow> Inr (PyBool b)))"

definition psm :: "env \<Rightarrow> error + string" where
  "psm e = (case v4 e of Inl err \<Rightarrow> Inl err | Inr b \<Rightarrow> Inr (if b then ''--psm'' else ''-psm''))"

text \<open>\<^verbatim>\<open>'+'.join(languages)\<close>.\<close>

fun join_plus :: "string list \<Rightarrow> string" where
  "join_plus [] = []"
| "join_plus [l] = l"
| "join_plus (l # m # ls) = l @ ''+'' @ join_plus (m # ls)"

definition tess_base_args :: "env \<Rightarrow> string list \<Rightarrow> int option \<Rightarrow> error + string list" where
  "tess_base_args e languages engine_mode =
     (let args = [program e] @ (if languages \<noteq> [] then [''-l'', join_plus languages] else [])
      in case engine_mode of
           None \<Rightarrow> Inr args
         | Some m \<Rightarrow>
             (case v4 e of
                Inl err \<Rightarrow> Inl err
              | Inr b \<Rightarrow> Inr (args @ (if b then [''--oem'', str_int m] else []))))"

subsection \<open>\<^verbatim>\<open>get_orientation\<close>\<close>

record OrientationConfidence =
  angle :: int
  confidence :: real

text \<open>The loop over the lines of the engine's output: a line with exactly one colon
  stores its stripped value under its stripped key; a later line overwrites an earlier one.\<close>

definition osd_line :: "(string \<rightharpoonup> string) \<Rightarrow> string \<Rightarrow> (string \<rightharpoonup> string)" where
  "osd_line osd line =
     (case split CHR '':'' 2 (strip line) of
        [k, v] \<Rightarrow> osd(strip k \<mapsto> strip v)
      | _ \<Rightarrow> osd)"

definition parse_osd :: "string \<Rightarrow> (string \<rightharpoonup> string)" where
  "parse_osd stdout = foldl osd_line Map.empty (splitlines stdout)"

text \<open>The success branch after the loop: the angle is read under
  \<^verbatim>\<open>'Orientation in degrees'\<close>, then the two assertions, then the confidence.\<close>

definition osd_confidence :: "env \<Rightarrow> (string \<rightharpoonup> string) \<Rightarrow> int \<Rightarrow> error + OrientationConfidence" where
  "osd_confidence e osd a =
     (case (case osd ''Orientation confidence'' of None \<Rightarrow> Some 0 | Some v \<Rightarrow> float_of e v) of
        None \<Rightarrow> Inl ValueError
      | Some c \<Rightarrow> Inr \<lparr>angle = a, confidence = c\<rparr>)"

definition osd_result :: "env \<Rightarrow> (string \<rightharpoonup> string) \<Rightarrow> error + OrientationConfidence" where
  "osd_result e osd =
     (case (case osd ''Orientation in degrees'' of None \<Rightarrow> Some 0 | Some v \<Rightarrow> py_int v) of
        None \<Rightarrow> Inl ValueError
      | Some a \<Rightarrow>
          if osd ''Orientation'' \<noteq> None then
            (if osd ''Rotate'' \<noteq> None then Inl AssertionError
             else osd_confidence e osd ((- a) mod 360))
          else
            (if osd ''Rotate'' \<noteq> None then osd_confidence e osd a
             else Inl AssertionError))"

definition get_orientation ::
  "env \<Rightarrow> path \<Rightarrow> string list \<Rightarrow> int option \<Rightarrow> real \<Rightarrow> state \<Rightarrow> state \<times> (error + OrientationConfidence)"
where
  "get_orientation e input_file language engine_mode timeout st =
     (case tess_base_args e language engine_mode of
        Inl err \<Rightarrow> (st, Inl err)
      | Inr base \<Rightarrow>
          (case psm e of
             Inl err \<Rightarrow> (st, Inl err)
           | Inr flag \<Rightarrow>
               (case run e (base @ [flag, ''0'', input_file, ''stdout'']) timeout (files st) of
                  (Expired, f) \<Rightarrow> (st\<lparr>files := f\<rparr>, Inr \<lparr>angle = 0, confidence = 0\<rparr>)
                | (Completed (NonZeroExit rc out), f) \<Rightarrow>
                    (let st' = st\<lparr>files := f,
                                  logs := logs st @ tesseract_log_output (page_number e input_file) out\<rparr>
                     in if sublist ''Too few characters. Skipping this page'' out
                           \<or> sublist ''Image too large'' out
                        then (st', Inr \<lparr>angle = 0, confidence = 0\<rparr>)
                        else (st', Inl (CalledProcessError rc out)))
                | (Completed (Returned stdout), f) \<Rightarrow>
                    (st\<lparr>files := f\<rparr>, osd_result e (parse_osd stdout)))))"

subsection \<open>\<^verbatim>\<open>page_timedout\<close> and \<^verbatim>\<open>_generate_null_hocr\<close>\<close>

definition page_timedout :: "int \<Rightarrow> log_record list" where
  "page_timedout page = [Msg WARNING (log_prefix page @ '' took too long to OCR - skipping'')]"

text \<open>\<^verbatim>\<open>'\n'.join(lines)\<close>.\<close>

fun join_lines :: "string list \<Rightarrow> string" where
  "join_lines [] = []"
| "join_lines [l] = l"
| "join_lines (l # m # ls) = l @ [CHR 0x0A] @ join_lines (m # ls)"

text \<open>\<^verbatim>\<open>HOCR_TEMPLATE.format(w, h)\<close>, line by line.\<close>

definition hocr_page_line :: "int \<Rightarrow> int \<Rightarrow> string" where
  \<open>hocr_page_line w h =
     ''  <div class='ocr_page' id='page_1' title='image "x.tif"; bbox 0 0 '' @ str_int w @ '' ''
       @ str_int h @ ''; ppageno 0'>''\<close>

definition hocr_template :: "int \<Rightarrow> int \<Rightarrow> string" where
  \<open>hocr_template w h =
     (let box = ''title="bbox 0 1 '' @ str_int w @ '' '' @ str_int h @ ''">''
      in join_lines
       [''<?xml version="1.0" encoding="UTF-8"?>'',
        ''<!DOCTYPE html PUBLIC "-//W3C//DTD XHTML 1.0 Transitional//EN"'',
        ''    "http://www.w3.org/TR/xhtml1/DTD/xhtml1-transitional.dtd">'',
        ''<html xmlns="http://www.w3.org/1999/xhtml" xml:lang="en" lang="en">'',
        '' <head>'',
        ''  <title></title>'',
        ''  <meta http-equiv="Content-Type" content="text/html; charset=utf-8" />'',
        ''  <meta name='ocr-system' content='tesseract 3.02.02' />'',
        ''  <meta name='ocr-capabilities' content='ocr_page ocr_carea ocr_par ocr_line ocrx_word'/>'',
        '' </head>'',
        '' <body>'',
        hocr_page_line w h,
        ''   <div class='ocr_carea' id='block_1_1' '' @ box,
        ''    <p class='ocr_par' dir='ltr' id='par_1' '' @ box,
        ''     <span class='ocr_line' id='line_1' '' @ box @ ''<span class='ocrx_word' id='word_1' ''
          @ box @ '' </span>'',
        ''     </span>'',
        ''    </p>'',
        ''   </div>'',
        ''  </div>'',
        '' </body>'',
        ''</html>''])\<close>

text \<open>\<^verbatim>\<open>Image.open(image).size\<close>, then the template is written to the output path.\<close>

definition generate_null_hocr :: "fs \<Rightarrow> path \<Rightarrow> path \<Rightarrow> error + fs" where
  "generate_null_hocr f output_hocr image_file =
     (case read_file f image_file of
        Inl err \<Rightarrow> Inl err
      | Inr (Image w h) \<Rightarrow> write_file f output_hocr (Text (hocr_template (int w) (int h)))
      | Inr c \<Rightarrow> Inl OSError)"

subsection \<open>The repair of the page title: \<^verbatim>\<open>regex_nested_single_quotes.sub\<close>\<close>

text \<open>
  The pattern is \<^verbatim>\<open>title='image "([^"]*)";\<close>. It matches at the start of a text when the
  text starts with \<open>title_open\<close> and the first double quote after that is followed by a
  semicolon; the group is the text in between. \<open>match_here\<close> returns the group and the
  text after the match.
\<close>

definition title_open :: string where
  \<open>title_open = ''title='image "''\<close>

definition title_blank :: string where
  \<open>title_blank = ''title='image " ";''\<close>

definition match_tail :: "string \<Rightarrow> (string \<times> string) option" where
  \<open>match_tail t =
     (let r = dropWhile (\<lambda>c. c \<noteq> CHR 0x22) t
      in if prefix ''";'' r then Some (takeWhile (\<lambda>c. c \<noteq> CHR 0x22) t, drop 2 r) else None)\<close>

definition match_here :: "string \<Rightarrow> (string \<times> string) option" where
  "match_here s = (if prefix title_open s then match_tail (drop (length title_open) s) else None)"

text \<open>\<^verbatim>\<open>sub\<close> replaces the matches from left to right, without overlap.\<close>

function regex_sub :: "string \<Rightarrow> string" where
  "regex_sub [] = []"
| "regex_sub (c # cs) =
     (case match_here (c # cs) of
        Some (cap, rest) \<Rightarrow> title_blank @ regex_sub rest
      | None \<Rightarrow> c # regex_sub cs)"
  by pat_completeness auto
termination
proof (relation "measure length")
  show "wf (measure length)" by simp
next
  fix c :: char and cs :: string and x2 :: "string \<times> string" and x y :: string
  assume m: "match_here (c # cs) = Some x2" and xy: "(x, y) = x2"
  have dw: "length (dropWhile (\<lambda>c. c \<noteq> CHR 0x22) t) \<le> length t" for t :: string
    by (rule length_dropWhile_le)
  have "match_tail t = Some (a, b) \<Longrightarrow> length b \<le> length t" for t a b
    using dw [of t] by (auto simp: match_tail_def Let_def split: if_splits)
  moreover from m xy have "match_tail (drop (length title_open) (c # cs)) = Some (x, y)"
    by (auto simp: match_here_def split: if_splits)
  ultimately have "length y \<le> length (drop (length title_open) (c # cs))"
    by blast
  then show "(y, c # cs) \<in> measure length"
    by (simp add: title_open_def)
next
  fix c :: char and cs :: string
  show "(cs, c # cs) \<in> measure length" by simp
qed


subsection \<open>Reading a text file line by line\<close>

text \<open>A file opened in text mode translates CR LF and CR to LF; iterating over it gives
  the lines, each with the LF that ends it.\<close>

fun translate_newlines :: "string \<Rightarrow> string" where
  "translate_newlines [] = []"
| "translate_newlines [c] = (if c = CHR 0x0D then [CHR 0x0A] else [c])"
| "translate_newlines (c # d # cs) =
     (if c = CHR 0x0D \<and> d = CHR 0x0A then CHR 0x0A # translate_newlines cs
      else if c = CHR 0x0D then CHR 0x0A # translate_newlines (d # cs)
      else c # translate_newlines (d # cs))"

fun lines_from :: "string \<Rightarrow> string \<Rightarrow> string list" where
  "lines_from cur [] = (if cur = [] then [] else [cur])"
| "lines_from cur (c # cs) =
     (if c = CHR 0x0A then (cur @ [c]) # lines_from [] cs else lines_from (cur @ [c]) cs)"

definition file_lines :: "string \<Rightarrow> string list" where
  "file_lines s = lines_from [] (translate_newlines s)"

definition read_lines :: "fs \<Rightarrow> path \<Rightarrow> error + string list" where
  "read_lines f p =
     (case read_file f p of
        Inl err \<Rightarrow> Inl err
      | Inr (Text s) \<Rightarrow> Inr (file_lines s)
      | Inr c \<Rightarrow> Inl UnicodeDecodeError)"

subsection \<open>\<^verbatim>\<open>generate_hocr\<close>\<close>

text \<open>The success branch, first part: the engine's file is moved to the \<^verbatim>\<open>badxml\<close> path
  when the engine has added the suffix \<^verbatim>\<open>.html\<close> or \<^verbatim>\<open>.hocr\<close> to it.\<close>

definition move_badxml :: "fs \<Rightarrow> path \<Rightarrow> error + fs" where
  "move_badxml f badxml =
     (if path_exists f (badxml @ ''.html'') then rename f (badxml @ ''.html'') badxml
      else if path_exists f (badxml @ ''.hocr'') then rename f (badxml @ ''.hocr'') badxml
      else Inr f)"

text \<open>The success branch, second part: \<^verbatim>\<open>badxml\<close> is opened for reading, the output path
  is opened for writing (which empties it), and each line is written with the pattern
  replaced. The file system is returned also when an error stops the rewriting.\<close>

definition rewrite_hocr :: "fs \<Rightarrow> path \<Rightarrow> path \<Rightarrow> fs \<times> (error + unit)" where
  "rewrite_hocr f badxml output_hocr =
     (case read_file f badxml of
        Inl err \<Rightarrow> (f, Inl err)
      | Inr c \<Rightarrow>
          (case write_file f output_hocr (Text []) of
             Inl err \<Rightarrow> (f, Inl err)
           | Inr f1 \<Rightarrow>
               (case read_lines f1 badxml of
                  Inl err \<Rightarrow> (f1, Inl err)
                | Inr ls \<Rightarrow>
                    (case write_file f1 output_hocr (Text (concat (map regex_sub ls))) of
                       Inl err \<Rightarrow> (f1, Inl err)
                     | Inr f2 \<Rightarrow> (f2, Inr ())))))"

text \<open>The two places where \<^verbatim>\<open>_generate_null_hocr\<close> ends the call.\<close>

definition null_hocr_result :: "state \<Rightarrow> path \<Rightarrow> path \<Rightarrow> state \<times> (error + unit)" where
  "null_hocr_result st output_hocr input_file =
     (case generate_null_hocr (files st) output_hocr input_file of
        Inl err \<Rightarrow> (st, Inl err)
      | Inr f \<Rightarrow> (st\<lparr>files := f\<rparr>, Inr ()))"

definition generate_hocr ::
  "env \<Rightarrow> path \<Rightarrow> path \<Rightarrow> string list \<Rightarrow> int option \<Rightarrow> string list \<Rightarrow> real \<Rightarrow> int option
     \<Rightarrow> state \<Rightarrow> state \<times> (error + unit)"
where
  "generate_hocr e input_file output_hocr language engine_mode tessconfig timeout pagesegmode st =
     (let badxml = splitext_root output_hocr @ ''.badxml''
      in case tess_base_args e language engine_mode of
           Inl err \<Rightarrow> (st, Inl err)
         | Inr base \<Rightarrow>
             (case (case pagesegmode of
                      None \<Rightarrow> Inr base
                    | Some m \<Rightarrow>
                        (case psm e of Inl err \<Rightarrow> Inl err | Inr flag \<Rightarrow> Inr (base @ [flag, str_int m]))) of
                Inl err \<Rightarrow> (st, Inl err)
              | Inr args0 \<Rightarrow>
                  (let args = args0 @ [input_file, badxml, ''hocr''] @ tessconfig;
                       page = page_number e input_file;
                       st1 = st\<lparr>logs := logs st @ [DebugArgs args]\<rparr>
                   in case run e args timeout (files st) of
                        (Expired, f) \<Rightarrow>
                          null_hocr_result
                            (st1\<lparr>files := f, logs := logs st1 @ page_timedout page\<rparr>)
                            output_hocr input_file
                      | (Completed (NonZeroExit rc out), f) \<Rightarrow>
                          (let st2 = st1\<lparr>files := f, logs := logs st1 @ tesseract_log_output page out\<rparr>
                           in if sublist ''read_params_file: parameter not found'' out
                              then (st2, Inl TesseractConfigError)
                              else if sublist ''Image too large'' out
                              then null_hocr_result st2 output_hocr input_file
                              else (st2, Inl (CalledProcessError rc out)))
                      | (Completed (Returned stdout), f) \<Rightarrow>
                          (let st2 = st1\<lparr>files := f, logs := logs st1 @ tesseract_log_output page stdout\<rparr>
                           in case move_badxml f badxml of
                                Inl err \<Rightarrow> (st2, Inl err)
                              | Inr f1 \<Rightarrow>
                                  (case rewrite_hocr f1 badxml output_hocr of
                                     (f2, r) \<Rightarrow> (st2\<lparr>files := f2\<rparr>, r))))))"

subsection \<open>\<^verbatim>\<open>use_skip_page\<close> and \<^verbatim>\<open>generate_pdf\<close>\<close>

definition use_skip_page :: "fs \<Rightarrow> bool \<Rightarrow> path \<Rightarrow> path \<Rightarrow> error + fs" where
  "use_skip_page f text_only skip_pdf output_pdf =
     (if \<not> text_only then symlink f skip_pdf output_pdf
      else
        (case read_file f skip_pdf of
           Inl err \<Rightarrow> Inl err
         | Inr (Pdf pages) \<Rightarrow>
             (case pages of
                [] \<Rightarrow> Inl IndexError
              | page0 # ps \<Rightarrow>
                  write_file f output_pdf
                    (Pdf [\<lparr>page_width = page_width page0, page_height = page_height page0,
                           page_blank = True\<rparr>]))
         | Inr c \<Rightarrow> Inl PdfReadError))"

definition skip_page_result :: "state \<Rightarrow> bool \<Rightarrow> path \<Rightarrow> path \<Rightarrow> state \<times> (error + unit)" where
  "skip_page_result st text_only skip_pdf output_pdf =
     (case use_skip_page (files st) text_only skip_pdf output_pdf of
        Inl err \<Rightarrow> (st, Inl err)
      | Inr f \<Rightarrow> (st\<lparr>files := f\<rparr>, Inr ()))"

text \<open>The call of the engine and what follows it (from \<^verbatim>\<open>args_tesseract.extend\<close> after the
  cleanup to the end of \<^verbatim>\<open>generate_pdf\<close>); \<open>args0\<close> is the argument list built so far.\<close>

definition render_pdf ::
  "env \<Rightarrow> string list \<Rightarrow> path \<Rightarrow> path \<Rightarrow> path \<Rightarrow> bool \<Rightarrow> string list \<Rightarrow> real
     \<Rightarrow> state \<Rightarrow> state \<times> (error + unit)"
where
  "render_pdf e args0 input_image skip_pdf output_pdf text_only tessconfig timeout st =
     (let args = args0 @ [input_image, splitext_root output_pdf, ''pdf''] @ tessconfig;
          page = page_number e input_image;
          st1 = st\<lparr>logs := logs st @ [DebugArgs args]\<rparr>
      in case run e args timeout (files st) of
           (Expired, f) \<Rightarrow>
             skip_page_result (st1\<lparr>files := f, logs := logs st1 @ page_timedout page\<rparr>)
               text_only skip_pdf output_pdf
         | (Completed (NonZeroExit rc out), f) \<Rightarrow>
             (let st2 = st1\<lparr>files := f, logs := logs st1 @ tesseract_log_output page out\<rparr>
              in if sublist ''read_params_file: parameter not found'' out
                 then (st2, Inl TesseractConfigError)
                 else if sublist ''Image too large'' out
                 then skip_page_result st2 text_only skip_pdf output_pdf
                 else (st2, Inl (CalledProcessError rc out)))
         | (Completed (Returned stdout), f) \<Rightarrow>
             (st1\<lparr>files := f, logs := logs st1 @ tesseract_log_output page stdout\<rparr>, Inr ()))"

definition textcleaner_command :: "path \<Rightarrow> path \<Rightarrow> string" where
  "textcleaner_command input_image input_image_clean =
     ''textcleaner -g -e stretch -f 25 -o 10 -u '' @ input_image @ '' '' @ input_image_clean"

definition generate_pdf ::
  "env \<Rightarrow> path \<Rightarrow> path \<Rightarrow> path \<Rightarrow> string list \<Rightarrow> int option \<Rightarrow> bool \<Rightarrow> string list \<Rightarrow> real
     \<Rightarrow> int option \<Rightarrow> state \<Rightarrow> state \<times> (error + unit)"
where
  "generate_pdf e input_image skip_pdf output_pdf language engine_mode text_only tessconfig timeout
       pagesegmode st =
     (case tess_base_args e language engine_mode of
        Inl err \<Rightarrow> (st, Inl err)
      | Inr base \<Rightarrow>
          (case (case pagesegmode of
                   None \<Rightarrow> Inr base
                 | Some m \<Rightarrow>
                     (case psm e of Inl err \<Rightarrow> Inl err | Inr flag \<Rightarrow> Inr (base @ [flag, str_int m]))) of
             Inl err \<Rightarrow> (st, Inl err)
           | Inr args0 \<Rightarrow>
               (let args1 = args0 @ (if text_only then [''-c'', ''textonly_pdf=1''] else []);
                    input_image_clean = input_image @ ''-clean.png'';
                    st1 = st\<lparr>logs := logs st @ [Msg INFO (''Textcleaning '' @ input_image)]\<rparr>
                in case system e (textcleaner_command input_image input_image_clean) (files st) of
                     (status, f) \<Rightarrow>
                       (case rename f input_image_clean input_image of
                          Inl err \<Rightarrow> (st1\<lparr>files := f\<rparr>, Inl err)
                        | Inr f1 \<Rightarrow>
                            render_pdf e args1 input_image skip_pdf output_pdf text_only tessconfig
                              timeout (st1\<lparr>files := f1\<rparr>)))))"

section \<open>The specification's side\<close>

subsection \<open>The classification table of the log classifier\<close>

text \<open>
  The specification gives a line one of four classes, by the first rule of a table that
  applies to it; a rule may fix the message. A text is contained "case-insensitively" when
  some part of the line reads as that text once lowered.
\<close>

datatype severity = Info | Warning | Error | Ignored






text \<open>The page field as the specification words it: four digits, padded with zeros
  (for a page number that is not negative).\<close>

definition zero_padded_4d :: "int \<Rightarrow> string" where
  "zero_padded_4d i = (let s = str_int i in replicate (4 - length s) CHR ''0'' @ s)"

subsection \<open>A sample environment\<close>

text \<open>An engine of version \<open>ver\<close> that answers the parameter query with \<open>params\<close>, whose run
  on a page is \<open>engine\<close> and beside which the cleanup filter behaves as \<open>cleaner\<close>.\<close>

definition sample_env :: "string \<Rightarrow> string \<Rightarrow> (fs \<Rightarrow> timed \<times> fs) \<Rightarrow> (fs \<Rightarrow> int \<times> fs) \<Rightarrow> env" where
  "sample_env ver params engine cleaner =
     \<lparr>program = ''tesseract'',
      query = (\<lambda>args. if args = [''tesseract'', ''--version'']
                       then Returned (''tesseract '' @ ver @ [CHR 0x0A] @ '' leptonica-1.72'')
                       else Returned params),
      run = (\<lambda>args timeout f. engine f),
      system = (\<lambda>cmd f. cleaner f),
      page_number = (\<lambda>p. 7),
      float_of = (\<lambda>s. if s = ''9.30'' then Some (93 / 10) else None)\<rparr>"

definition empty_state :: state where
  "empty_state = \<lparr>logs = [], files = Map.empty\<rparr>"

text \<open>Sample outputs of the engine in orientation mode, in the older form (with the key
  "Orientation", without "Rotate") and in the newer one; and sample behaviours of the engine
  and of the cleanup filter.\<close>

definition variant_a_output :: string where
  "variant_a_output = ''Orientation: 3'' @ [CHR 0x0A] @ ''Orientation in degrees: 90'' @ [CHR 0x0A]
     @ ''Orientation confidence: 9.30'' @ [CHR 0x0A] @ ''Script: 1'' @ [CHR 0x0A]"

definition variant_b_output :: string where
  "variant_b_output = ''Orientation in degrees: 90'' @ [CHR 0x0A] @ ''Rotate: 270'' @ [CHR 0x0A]
     @ ''Orientation confidence: 9.30'' @ [CHR 0x0A]"

definition returns :: "string \<Rightarrow> fs \<Rightarrow> timed \<times> fs" where
  "returns out f = (Completed (Returned out), f)"

definition fails :: "int \<Rightarrow> string \<Rightarrow> fs \<Rightarrow> timed \<times> fs" where
  "fails rc out f = (Completed (NonZeroExit rc out), f)"

definition expires :: "fs \<Rightarrow> timed \<times> fs" where
  "expires f = (Expired, f)"

definition no_cleaner :: "fs \<Rightarrow> int \<times> fs" where
  "no_cleaner f = (127, f)"

text \<open>Sample files: a page image and a fallback page; an engine that writes a file and
  exits with status 0; and an engine output in hOCR form that carries the name of its
  source image.\<close>

definition sample_files :: fs where
  "sample_files = [''/tmp/000001.png'' \<mapsto> Regular (Image 640 480),
                   ''/tmp/skip.pdf'' \<mapsto> Regular (Pdf [\<lparr>page_width = 612, page_height = 792, page_blank = False\<rparr>])]"

definition sample_state :: state where
  "sample_state = \<lparr>logs = [], files = sample_files\<rparr>"







text \<open>An engine output that carries both failure markers; a cleanup filter that exits with
  a given status and leaves a file at a path; environments for \<^verbatim>\<open>generate_pdf\<close>, one with
  a filter that works and one with a filter that fails after writing a truncated file; and
  the files after a successful cleanup.\<close>

definition both_markers :: string where
  "both_markers = ''read_params_file: parameter not found: foo'' @ [CHR 0x0A] @ ''Image too large: (70000, 70000)''"

definition cleans :: "int \<Rightarrow> path \<Rightarrow> content \<Rightarrow> fs \<Rightarrow> int \<times> fs" where
  "cleans status p c f = (status, f(p \<mapsto> Regular c))"

definition pdf_env :: "(fs \<Rightarrow> timed \<times> fs) \<Rightarrow> env" where
  "pdf_env engine = sample_env ''4.1.0'' [] engine (cleans 0 ''/tmp/000001.png-clean.png'' (Image 640 480))"

definition cleaned_files :: fs where
  "cleaned_files = (sample_files(''/tmp/000001.png-clean.png'' := None))(''/tmp/000001.png'' \<mapsto> Regular (Image 640 480))"

definition broken_cleaner_env :: env where
  "broken_cleaner_env = sample_env ''4.1.0'' [] (returns [])
     (cleans 1 ''/tmp/000001.png-clean.png'' (Text ''truncated''))"

section \<open>Properties\<close>

subsection \<open>The log classifier\<close>





text \<open>
  C6, as amended. Every record that \<^verbatim>\<open>tesseract_log_output\<close> hands to the logger is a
  message that starts with the page number right-aligned in a field of at least four
  columns padded with spaces, followed by a colon, a space, the tag "[tesseract]" and a
  space.
\<close>

theorem log_lines_prefixed:
  "\<forall>r \<in> set (tesseract_log_output page stdout).
     \<exists>lvl body. r = Msg lvl (replicate (4 - length (str_int page)) CHR '' '' @ str_int page
                              @ '': [tesseract] '' @ body)"
  by (auto simp: tesseract_log_output_def classify_line_def log_prefix_def format_4d_def Let_def
      split: if_splits)

theorem log_lines_prefixed_witness:
  "Msg INFO ''   7: [tesseract] ok'' \<in> set (tesseract_log_output 7 ''ok'') \<and>
   (\<exists>lvl body. Msg INFO ''   7: [tesseract] ok''
      = Msg lvl (replicate (4 - length (str_int 7)) CHR '' '' @ str_int 7 @ '': [tesseract] '' @ body))"
proof -
  have m: "Msg INFO ''   7: [tesseract] ok'' \<in> set (tesseract_log_output 7 ''ok'')"
    by code_simp
  with log_lines_prefixed [of 7 "''ok''"] show ?thesis
    by blast
qed

text \<open>
  C6, as stated, fails on page 7: the one record for the line "ok" starts with three spaces
  and the digit 7, not with the zero-padded field "0007".
\<close>

theorem log_prefix_zero_padded_counterexample:
  "tesseract_log_output 7 ''ok'' = [Msg INFO ''   7: [tesseract] ok''] \<and>
   zero_padded_4d 7 = ''0007'' \<and>
   \<not> prefix (zero_padded_4d 7) ''   7: [tesseract] ok''"
  by code_simp

subsection \<open>The sample environment at work\<close>

lemma version_sample:
  "ver \<noteq> [] \<Longrightarrow> CHR 0x0A \<notin> set ver \<Longrightarrow> version (sample_env ver params engine cleaner) = Inr ver"
proof -
  assume ne: "ver \<noteq> []" and nl: "CHR 0x0A \<notin> set ver"
  from nl have "takeWhile (\<lambda>x. x \<noteq> CHR 0x0A) (ver @ [CHR 0x0A] @ rest) = ver" for rest
    by (subst takeWhile_append2) auto
  with ne show ?thesis
    by (simp add: version_def sample_env_def match_version_def is_space_def Let_def)
qed

lemma psm_sample:
  "ver \<noteq> [] \<Longrightarrow> CHR 0x0A \<notin> set ver \<Longrightarrow>
   psm (sample_env ver params engine cleaner) = Inr (if str_ge ver ''4'' then ''--psm'' else ''-psm'')"
  by (simp add: psm_def v4_def version_sample)

lemma base_args_sample:
  "tess_base_args (sample_env ver params engine cleaner) [''eng''] None = Inr [''tesseract'', ''-l'', ''eng'']"
  by (simp add: tess_base_args_def sample_env_def)

lemma run_sample: "run (sample_env ver params engine cleaner) args t f = engine f"
  by (simp add: sample_env_def)

subsection \<open>Text-only rendering\<close>

text \<open>The comparison with the text "4" looks at the first character only.\<close>

lemma str_ge_4: "str_ge v ''4'' \<longleftrightarrow> v \<noteq> [] \<and> (of_char (hd v) :: nat) \<ge> 52"
proof (cases v)
  case Nil
  then show ?thesis by simp
next
  case (Cons a w)
  have "(of_char a :: nat) = of_char CHR ''4'' \<longleftrightarrow> a = CHR ''4''"
    by (rule of_char_eq_iff)
  then have "(of_char a :: nat) = 52 \<longleftrightarrow> a = CHR ''4''"
    by simp
  with Cons show ?thesis
    by (auto simp: le_less)
qed

text \<open>
  C7. Let the version probe give the version text \<open>v\<close>; versions are compared as texts,
  as \<^verbatim>\<open>v4\<close> does. If \<open>v\<close> is at least "4" and is not the build "4.00.00alpha",
  \<^verbatim>\<open>has_textonly_pdf\<close> returns true. For the build "4.00.00alpha" the engine's parameter
  list is queried and the result is true when the list contains "textonly_pdf" and the
  false value \<^verbatim>\<open>None\<close> when it does not. If \<open>v\<close> is below "4", the result is false.
\<close>

theorem has_textonly_pdf_by_version:
  assumes "version e = Inr v"
  shows "(str_ge v ''4'' \<and> v \<noteq> ''4.00.00alpha'' \<longrightarrow> has_textonly_pdf e = Inr (PyBool True)) \<and>
         (v = ''4.00.00alpha'' \<longrightarrow>
            (\<forall>params. query e [program e, ''--print-parameters''] = Returned params \<longrightarrow>
               has_textonly_pdf e
                 = Inr (if sublist ''textonly_pdf'' params then PyBool True else PyNone) \<and>
               (\<forall>a. has_textonly_pdf e = Inr a \<longrightarrow> truthy a = sublist ''textonly_pdf'' params))) \<and>
         (\<not> str_ge v ''4'' \<longrightarrow> has_textonly_pdf e = Inr (PyBool False))"
  using assms by (auto simp: has_textonly_pdf_def v4_def)

theorem has_textonly_pdf_by_version_witness:
  "has_textonly_pdf (sample_env ''4.1.0'' [] expires no_cleaner) = Inr (PyBool True) \<and>
   has_textonly_pdf (sample_env ''4.00.00alpha'' ''textord_x 1 textonly_pdf 0'' expires no_cleaner)
     = Inr (PyBool True) \<and>
   has_textonly_pdf (sample_env ''4.00.00alpha'' ''textord_x 1'' expires no_cleaner)
     = Inr PyNone \<and>
   has_textonly_pdf (sample_env ''3.04.01'' [] expires no_cleaner) = Inr (PyBool False)"
proof -
  let ?E = expires and ?C = no_cleaner
  have v1: "version (sample_env ''4.1.0'' [] ?E ?C) = Inr ''4.1.0''"
    by (rule version_sample) simp_all
  have v2: "version (sample_env ''4.00.00alpha'' p ?E ?C) = Inr ''4.00.00alpha''" for p
    by (rule version_sample) simp_all
  have v3: "version (sample_env ''3.04.01'' [] ?E ?C) = Inr ''3.04.01''"
    by (rule version_sample) simp_all
  have q: "query (sample_env ver p ?E ?C) [program (sample_env ver p ?E ?C), ''--print-parameters''] = Returned p" for ver p
    by (simp add: sample_env_def)
  show ?thesis
    using has_textonly_pdf_by_version [OF v1]
      has_textonly_pdf_by_version [OF v2 [of "''textord_x 1 textonly_pdf 0''"]]
      has_textonly_pdf_by_version [OF v2 [of "''textord_x 1''"]]
      has_textonly_pdf_by_version [OF v3] q
    by (simp add: sublist_code)
qed


subsection \<open>Orientation detection\<close>

lemma get_orientation_returned:
  assumes "tess_base_args e language engine_mode = Inr base"
    and "psm e = Inr flag"
    and "run e (base @ [flag, ''0'', input_file, ''stdout'']) timeout (files st)
           = (Completed (Returned stdout), f)"
  shows "get_orientation e input_file language engine_mode timeout st
           = (st\<lparr>files := f\<rparr>, osd_result e (parse_osd stdout))"
  using assms by (simp add: get_orientation_def)



text \<open>
  C1, as amended. After a run of the engine that exits with status 0, the keys of the
  parsed output decide. The raw angle is the integer under the key "Orientation in degrees"
  (0 when the key is absent) in both forms of output. With the key "Orientation" present and
  "Rotate" absent the angle returned is \<open>(- raw) mod 360\<close>; with "Orientation" absent and
  "Rotate" present it is the raw angle; with both keys present or both absent the assertion
  fails. The confidence is read under "Orientation confidence" and is 0 when that key is
  absent. (Both readings are assumed to succeed.)
\<close>

theorem get_orientation_success:
  assumes "tess_base_args e language engine_mode = Inr base"
    and "psm e = Inr flag"
    and "run e (base @ [flag, ''0'', input_file, ''stdout'']) timeout (files st)
           = (Completed (Returned stdout), f)"
    and "osd = parse_osd stdout"
    and "(case osd ''Orientation in degrees'' of None \<Rightarrow> Some 0 | Some v \<Rightarrow> py_int v) = Some raw"
    and "(case osd ''Orientation confidence'' of None \<Rightarrow> Some 0 | Some v \<Rightarrow> float_of e v) = Some c"
  shows "snd (get_orientation e input_file language engine_mode timeout st) =
           (if osd ''Orientation'' \<noteq> None \<and> osd ''Rotate'' = None
              then Inr \<lparr>angle = (- raw) mod 360, confidence = c\<rparr>
            else if osd ''Orientation'' = None \<and> osd ''Rotate'' \<noteq> None
              then Inr \<lparr>angle = raw, confidence = c\<rparr>
            else Inl AssertionError)
         \<and> (osd ''Orientation confidence'' = None \<longrightarrow> c = 0)"
  using assms by (auto simp: get_orientation_def osd_result_def osd_confidence_def)

theorem get_orientation_success_witness:
  "snd (get_orientation (sample_env ''3.04.00'' [] (returns variant_a_output) no_cleaner)
          ''p.png'' [''eng''] None 30 empty_state)
     = Inr \<lparr>angle = 270, confidence = 93 / 10\<rparr> \<and>
   snd (get_orientation (sample_env ''3.04.01'' [] (returns variant_b_output) no_cleaner)
          ''p.png'' [''eng''] None 30 empty_state)
     = Inr \<lparr>angle = 90, confidence = 93 / 10\<rparr>"
proof -
  have p: "psm (sample_env ver [] engine no_cleaner) = Inr ''-psm''"
    if "ver = ''3.04.00'' \<or> ver = ''3.04.01''" for ver engine
    using that by (auto simp: psm_sample)
  have r: "run (sample_env ver [] (returns out) no_cleaner)
             ([''tesseract'', ''-l'', ''eng''] @ [''-psm'', ''0'', ''p.png'', ''stdout'']) 30 (files empty_state)
           = (Completed (Returned out), files empty_state)" for ver out
    by (simp add: run_sample returns_def)
  have a: "parse_osd variant_a_output ''Orientation'' = Some ''3''"
    "parse_osd variant_a_output ''Rotate'' = None"
    "parse_osd variant_a_output ''Orientation in degrees'' = Some ''90''"
    "parse_osd variant_a_output ''Orientation confidence'' = Some ''9.30''"
    by code_simp+
  have b: "parse_osd variant_b_output ''Orientation'' = None"
    "parse_osd variant_b_output ''Rotate'' = Some ''270''"
    "parse_osd variant_b_output ''Orientation in degrees'' = Some ''90''"
    "parse_osd variant_b_output ''Orientation confidence'' = Some ''9.30''"
    by code_simp+
  have i: "py_int ''90'' = Some 90"
    by code_simp
  have fl: "float_of (sample_env ver [] engine no_cleaner) ''9.30'' = Some (93 / 10)" for ver engine
    by (simp add: sample_env_def)
  have ha: "(case parse_osd variant_a_output ''Orientation in degrees'' of
               None \<Rightarrow> Some 0 | Some v \<Rightarrow> py_int v) = Some 90"
    "(case parse_osd variant_a_output ''Orientation confidence'' of
        None \<Rightarrow> Some 0
      | Some v \<Rightarrow> float_of (sample_env ''3.04.00'' [] (returns variant_a_output) no_cleaner) v)
       = Some (93 / 10)"
    by (simp_all add: a i fl)
  have hb: "(case parse_osd variant_b_output ''Orientation in degrees'' of
               None \<Rightarrow> Some 0 | Some v \<Rightarrow> py_int v) = Some 90"
    "(case parse_osd variant_b_output ''Orientation confidence'' of
        None \<Rightarrow> Some 0
      | Some v \<Rightarrow> float_of (sample_env ''3.04.01'' [] (returns variant_b_output) no_cleaner) v)
       = Some (93 / 10)"
    by (simp_all add: b i fl)
  show ?thesis
    using get_orientation_success [OF base_args_sample p r refl ha]
      get_orientation_success [OF base_args_sample p r refl hb]
    by (simp add: a b)
qed

text \<open>
  C1, as stated, fails on the output "Orientation: 90": the key "Orientation" is present,
  "Rotate" is absent, and the angle returned is 0, not 270, since the value under
  "Orientation" is never read.
\<close>

theorem orientation_key_counterexample:
  "parse_osd ''Orientation: 90'' ''Orientation'' = Some ''90'' \<and>
   parse_osd ''Orientation: 90'' ''Rotate'' = None \<and>
   snd (get_orientation (sample_env ''3.04.00'' [] (returns ''Orientation: 90'') no_cleaner)
          ''p.png'' [''eng''] None 30 empty_state)
     = Inr \<lparr>angle = 0, confidence = 0\<rparr> \<and>
   snd (get_orientation (sample_env ''3.04.00'' [] (returns ''Orientation: 90'') no_cleaner)
          ''p.png'' [''eng''] None 30 empty_state)
     \<noteq> Inr \<lparr>angle = 270, confidence = 0\<rparr>"
proof -
  have k: "parse_osd ''Orientation: 90'' ''Orientation'' = Some ''90''"
    "parse_osd ''Orientation: 90'' ''Rotate'' = None"
    "parse_osd ''Orientation: 90'' ''Orientation in degrees'' = None"
    "parse_osd ''Orientation: 90'' ''Orientation confidence'' = None"
    by code_simp+
  have "get_orientation (sample_env ''3.04.00'' [] (returns ''Orientation: 90'') no_cleaner)
          ''p.png'' [''eng''] None 30 empty_state
        = (empty_state\<lparr>files := files empty_state\<rparr>,
           osd_result (sample_env ''3.04.00'' [] (returns ''Orientation: 90'') no_cleaner)
             (parse_osd ''Orientation: 90''))"
    by (rule get_orientation_returned [OF base_args_sample])
      (simp_all add: psm_sample run_sample returns_def)
  then show ?thesis
    by (simp add: k osd_result_def osd_confidence_def)
qed

text \<open>
  C10, as amended. After a run of the engine that exits with status 0: when the parsed
  output has neither the key "Orientation" nor the key "Rotate", \<^verbatim>\<open>get_orientation\<close> raises
  an error and returns no result; the error is that of the failed assertion, unless the
  value under "Orientation in degrees" is present and is not an integer, in which case it is
  the \<^verbatim>\<open>ValueError\<close> of the conversion, which comes first. A result is returned only when
  exactly one of the two keys is present.
\<close>

theorem get_orientation_schema_check:
  assumes "tess_base_args e language engine_mode = Inr base"
    and "psm e = Inr flag"
    and "run e (base @ [flag, ''0'', input_file, ''stdout'']) timeout (files st)
           = (Completed (Returned stdout), f)"
    and "osd = parse_osd stdout"
  shows "(osd ''Orientation'' = None \<and> osd ''Rotate'' = None \<longrightarrow>
            snd (get_orientation e input_file language engine_mode timeout st) =
              (case osd ''Orientation in degrees'' of
                 None \<Rightarrow> Inl AssertionError
               | Some v \<Rightarrow> if py_int v = None then Inl ValueError else Inl AssertionError)) \<and>
         (\<forall>r. snd (get_orientation e input_file language engine_mode timeout st) = Inr r \<longrightarrow>
            (osd ''Orientation'' \<noteq> None) \<noteq> (osd ''Rotate'' \<noteq> None))"
  using assms
  by (auto simp: get_orientation_def osd_result_def osd_confidence_def split: option.splits if_splits)


theorem get_orientation_schema_check_witness:
  "parse_osd [] ''Orientation'' = None \<and> parse_osd [] ''Rotate'' = None \<and>
   snd (get_orientation (sample_env ''3.04.01'' [] (returns []) no_cleaner)
          ''p.png'' [''eng''] None 30 empty_state) = Inl AssertionError \<and>
   snd (get_orientation (sample_env ''3.04.01'' [] (returns variant_b_output) no_cleaner)
          ''p.png'' [''eng''] None 30 empty_state) = Inr \<lparr>angle = 90, confidence = 93 / 10\<rparr> \<and>
   (parse_osd variant_b_output ''Orientation'' \<noteq> None) \<noteq> (parse_osd variant_b_output ''Rotate'' \<noteq> None)"
proof -
  have p: "psm (sample_env ''3.04.01'' [] engine no_cleaner) = Inr ''-psm''" for engine
    by (simp add: psm_sample)
  have r: "run (sample_env ''3.04.01'' [] (returns out) no_cleaner)
             ([''tesseract'', ''-l'', ''eng''] @ [''-psm'', ''0'', ''p.png'', ''stdout'']) 30 (files empty_state)
           = (Completed (Returned out), files empty_state)" for out
    by (simp add: run_sample returns_def)
  have e: "parse_osd [] k = None" for k
    by (simp add: parse_osd_def splitlines_def)
  have b: "parse_osd variant_b_output ''Orientation'' = None"
    "parse_osd variant_b_output ''Rotate'' = Some ''270''"
    "parse_osd variant_b_output ''Orientation in degrees'' = Some ''90''"
    "parse_osd variant_b_output ''Orientation confidence'' = Some ''9.30''"
    by code_simp+
  have i: "py_int ''90'' = Some 90"
    by code_simp
  have g: "get_orientation (sample_env ''3.04.01'' [] (returns variant_b_output) no_cleaner)
          ''p.png'' [''eng''] None 30 empty_state
        = (empty_state\<lparr>files := files empty_state\<rparr>,
           osd_result (sample_env ''3.04.01'' [] (returns variant_b_output) no_cleaner)
             (parse_osd variant_b_output))"
    by (rule get_orientation_returned [OF base_args_sample p r])
  have v: "snd (get_orientation (sample_env ''3.04.01'' [] (returns variant_b_output) no_cleaner)
          ''p.png'' [''eng''] None 30 empty_state) = Inr \<lparr>angle = 90, confidence = 93 / 10\<rparr>"
    unfolding g by (simp add: b i osd_result_def osd_confidence_def sample_env_def)
  show ?thesis
    using get_orientation_schema_check [OF base_args_sample p r [of "[]"] refl]
      get_orientation_schema_check [OF base_args_sample p r [of variant_b_output] refl] v
    by (simp add: e b)
qed

text \<open>
  C10, as stated, fails on the output "Orientation in degrees: x": neither key is present,
  and the error raised is the \<^verbatim>\<open>ValueError\<close> of \<^verbatim>\<open>int\<close>, not an assertion failure.
\<close>

theorem orientation_value_counterexample:
  "parse_osd ''Orientation in degrees: x'' ''Orientation'' = None \<and>
   parse_osd ''Orientation in degrees: x'' ''Rotate'' = None \<and>
   snd (get_orientation (sample_env ''3.04.01'' [] (returns ''Orientation in degrees: x'') no_cleaner)
          ''p.png'' [''eng''] None 30 empty_state) = Inl ValueError \<and>
   snd (get_orientation (sample_env ''3.04.01'' [] (returns ''Orientation in degrees: x'') no_cleaner)
          ''p.png'' [''eng''] None 30 empty_state) \<noteq> Inl AssertionError"
proof -
  have k: "parse_osd ''Orientation in degrees: x'' ''Orientation'' = None"
    "parse_osd ''Orientation in degrees: x'' ''Rotate'' = None"
    "parse_osd ''Orientation in degrees: x'' ''Orientation in degrees'' = Some ''x''"
    by code_simp+
  have i: "py_int ''x'' = None"
    by code_simp
  have "get_orientation (sample_env ''3.04.01'' [] (returns ''Orientation in degrees: x'') no_cleaner)
          ''p.png'' [''eng''] None 30 empty_state
        = (empty_state\<lparr>files := files empty_state\<rparr>,
           osd_result (sample_env ''3.04.01'' [] (returns ''Orientation in degrees: x'') no_cleaner)
             (parse_osd ''Orientation in degrees: x''))"
    by (rule get_orientation_returned [OF base_args_sample])
      (simp_all add: psm_sample run_sample returns_def)
  then show ?thesis
    by (simp add: k i osd_result_def)
qed

subsection \<open>The file system\<close>

lemma resolve_plain: "(\<And>q. f p \<noteq> Some (Link q)) \<Longrightarrow> resolve n f p = Inr p"
  by (cases n; cases "f p") (auto split: node.splits)

lemma write_file_plain:
  "(\<And>q. f p \<noteq> Some (Link q)) \<Longrightarrow> write_file f p c = Inr (f(p \<mapsto> Regular c))"
  by (simp add: write_file_def resolve_plain)

lemma resolve_after_write:
  "resolve n f p = Inr q \<Longrightarrow> resolve n (f(q \<mapsto> Regular c)) p = Inr q"
proof (induction n arbitrary: p)
  case 0
  then show ?case by (auto split: option.splits node.splits)
next
  case (Suc n)
  then show ?case by (cases "p = q") (auto split: option.splits node.splits)
qed

lemma read_after_write: "write_file f p c = Inr f' \<Longrightarrow> read_file f' p = Inr c"
  by (auto simp: write_file_def read_file_def resolve_after_write split: sum.splits)

subsection \<open>The substitution of the page title\<close>













subsection \<open>The geometry document\<close>





subsection \<open>The recovery policy of \<^verbatim>\<open>generate_hocr\<close>\<close>

lemma sublist_join_lines: "l \<in> set ls \<Longrightarrow> sublist l (join_lines ls)"
proof (induction ls rule: join_lines.induct)
  case 1
  then show ?case by simp
next
  case (2 l')
  then show ?case by simp
next
  case (3 l' m ls)
  show ?case
  proof (cases "l = l'")
    case True
    then show ?thesis by simp
  next
    case False
    with 3 have "sublist l (join_lines (m # ls))" by simp
    then show ?thesis
      by (metis join_lines.simps(3) sublist_append)
  qed
qed

lemma hocr_page_line_bbox:
  \<open>sublist (''title='image "x.tif"; bbox 0 0 '' @ str_int w @ '' '' @ str_int h @ ''; ppageno 0'')
     (hocr_page_line w h)\<close>
proof -
  have \<open>hocr_page_line w h = ''  <div class='ocr_page' id='page_1' ''
          @ (''title='image "x.tif"; bbox 0 0 '' @ str_int w @ '' '' @ str_int h @ ''; ppageno 0'')
          @ [CHR 0x27, CHR ''>'']\<close>
    by (simp add: hocr_page_line_def)
  then show ?thesis
    by (metis sublist_appendI)
qed

lemma hocr_template_bbox:
  \<open>sublist (''title='image "x.tif"; bbox 0 0 '' @ str_int w @ '' '' @ str_int h @ ''; ppageno 0'')
     (hocr_template w h)\<close>
proof -
  have "sublist (hocr_page_line w h) (hocr_template w h)"
    unfolding hocr_template_def Let_def by (rule sublist_join_lines) simp
  with hocr_page_line_bbox [of w h] show ?thesis
    by (rule sublist_order.order_trans)
qed


lemma generate_hocr_run:
  assumes "tess_base_args e language engine_mode = Inr base"
    and "(case pagesegmode of
            None \<Rightarrow> Inr base
          | Some m \<Rightarrow> (case psm e of Inl err \<Rightarrow> Inl err | Inr flag \<Rightarrow> Inr (base @ [flag, str_int m])))
         = Inr args0"
    and "args = args0 @ [input_file, splitext_root output_hocr @ ''.badxml'', ''hocr''] @ tessconfig"
    and "run e args timeout (files st) = (outcome, f)"
    and "st1 = st\<lparr>logs := logs st @ [DebugArgs args]\<rparr>"
    and "page = page_number e input_file"
  shows "generate_hocr e input_file output_hocr language engine_mode tessconfig timeout pagesegmode st =
     (case outcome of
        Expired \<Rightarrow>
          null_hocr_result (st1\<lparr>files := f, logs := logs st1 @ page_timedout page\<rparr>)
            output_hocr input_file
      | Completed (NonZeroExit rc out) \<Rightarrow>
          (let st2 = st1\<lparr>files := f, logs := logs st1 @ tesseract_log_output page out\<rparr>
           in if sublist ''read_params_file: parameter not found'' out
              then (st2, Inl TesseractConfigError)
              else if sublist ''Image too large'' out
              then null_hocr_result st2 output_hocr input_file
              else (st2, Inl (CalledProcessError rc out)))
      | Completed (Returned stdout) \<Rightarrow>
          (let st2 = st1\<lparr>files := f, logs := logs st1 @ tesseract_log_output page stdout\<rparr>
           in case move_badxml f (splitext_root output_hocr @ ''.badxml'') of
                Inl err \<Rightarrow> (st2, Inl err)
              | Inr f1 \<Rightarrow>
                  (case rewrite_hocr f1 (splitext_root output_hocr @ ''.badxml'') output_hocr of
                     (f2, r) \<Rightarrow> (st2\<lparr>files := f2\<rparr>, r))))"
  using assms
  by (simp add: generate_hocr_def Let_def split: timed.splits completed.splits)

lemma null_hocr_result_ok:
  assumes "read_file (files s) input_file = Inr (Image w h)"
    and "write_file (files s) output_hocr (Text (hocr_template (int w) (int h))) = Inr f'"
  shows "null_hocr_result s output_hocr input_file = (s\<lparr>files := f'\<rparr>, Inr ())"
  using assms by (simp add: null_hocr_result_def generate_null_hocr_def)

text \<open>
  C3, as amended. Once the argument list is built, the outcome of the engine's run decides.
  On a timeout, or on an exit status other than 0 whose output contains "Image too large"
  and does not contain "read_params_file: parameter not found", \<^verbatim>\<open>generate_hocr\<close> returns
  without error and the output path holds the null hOCR document, whose page title declares
  the box \<open>0 0 w h\<close> for the pixel width \<open>w\<close> and height \<open>h\<close> of the source image (the
  source image being readable and the output path writable). On an exit status other than 0
  whose output contains "read_params_file: parameter not found" it raises
  \<^verbatim>\<open>TesseractConfigError\<close>, whatever else the output contains. On any other exit status
  other than 0 the classified output is logged and the error of the run is raised again.
\<close>

theorem generate_hocr_recovery:
  assumes "tess_base_args e language engine_mode = Inr base"
    and "(case pagesegmode of
            None \<Rightarrow> Inr base
          | Some m \<Rightarrow> (case psm e of Inl err \<Rightarrow> Inl err | Inr flag \<Rightarrow> Inr (base @ [flag, str_int m])))
         = Inr args0"
    and "args = args0 @ [input_file, splitext_root output_hocr @ ''.badxml'', ''hocr''] @ tessconfig"
    and "run e args timeout (files st) = (outcome, f)"
    and "g = generate_hocr e input_file output_hocr language engine_mode tessconfig timeout pagesegmode st"
  shows
    \<open>((outcome = Expired \<or>
       (\<exists>rc out. outcome = Completed (NonZeroExit rc out) \<and> sublist ''Image too large'' out \<and>
                  \<not> sublist ''read_params_file: parameter not found'' out)) \<longrightarrow>
      (\<forall>w h f'. read_file f input_file = Inr (Image w h) \<and>
                 write_file f output_hocr (Text (hocr_template (int w) (int h))) = Inr f' \<longrightarrow>
         snd g = Inr () \<and> files (fst g) = f' \<and>
         read_file (files (fst g)) output_hocr = Inr (Text (hocr_template (int w) (int h))) \<and>
         sublist (''title='image "x.tif"; bbox 0 0 '' @ str_int (int w) @ '' '' @ str_int (int h)
                  @ ''; ppageno 0'') (hocr_template (int w) (int h)))) \<and>
     (\<forall>rc out. outcome = Completed (NonZeroExit rc out) \<and>
                sublist ''read_params_file: parameter not found'' out \<longrightarrow>
        snd g = Inl TesseractConfigError) \<and>
     (\<forall>rc out. outcome = Completed (NonZeroExit rc out) \<and>
                \<not> sublist ''read_params_file: parameter not found'' out \<and>
                \<not> sublist ''Image too large'' out \<longrightarrow>
        snd g = Inl (CalledProcessError rc out) \<and>
        logs (fst g) = logs st @ [DebugArgs args]
                       @ tesseract_log_output (page_number e input_file) out)\<close>
proof -
  note run = generate_hocr_run [OF assms(1-4) refl refl, folded assms(5)]
  have a: "snd g = Inr () \<and> files (fst g) = f' \<and>
           read_file (files (fst g)) output_hocr = Inr (Text (hocr_template (int w) (int h)))"
    if o: "outcome = Expired \<or>
       (\<exists>rc out. outcome = Completed (NonZeroExit rc out) \<and> sublist ''Image too large'' out \<and>
                  \<not> sublist ''read_params_file: parameter not found'' out)"
      and r: "read_file f input_file = Inr (Image w h)"
      and w: "write_file f output_hocr (Text (hocr_template (int w) (int h))) = Inr f'"
    for w h f'
  proof -
    have n: "null_hocr_result s output_hocr input_file = (s\<lparr>files := f'\<rparr>, Inr ())"
      if "files s = f" for s
      using that r w by (simp add: null_hocr_result_ok)
    from o have "snd g = Inr () \<and> files (fst g) = f'"
      by (auto simp: run Let_def n)
    with read_after_write [OF w] show ?thesis
      by simp
  qed
  have b: "snd g = Inl TesseractConfigError"
    if "outcome = Completed (NonZeroExit rc out)"
      and "sublist ''read_params_file: parameter not found'' out" for rc out
    using that by (simp add: run Let_def)
  have c: "snd g = Inl (CalledProcessError rc out) \<and>
        logs (fst g) = logs st @ [DebugArgs args]
                       @ tesseract_log_output (page_number e input_file) out"
    if "outcome = Completed (NonZeroExit rc out)"
      and "\<not> sublist ''read_params_file: parameter not found'' out"
      and "\<not> sublist ''Image too large'' out" for rc out
    using that by (simp add: run Let_def)
  from a b c hocr_template_bbox show ?thesis
    by blast
qed


theorem generate_hocr_recovery_witness:
  "snd (generate_hocr (sample_env ''3.04.01'' [] expires no_cleaner) ''/tmp/000001.png''
          ''/tmp/000001.hocr'' [''eng''] None [] 30 None sample_state) = Inr () \<and>
   read_file (files (fst (generate_hocr (sample_env ''3.04.01'' [] expires no_cleaner)
          ''/tmp/000001.png'' ''/tmp/000001.hocr'' [''eng''] None [] 30 None sample_state)))
      ''/tmp/000001.hocr'' = Inr (Text (hocr_template 640 480)) \<and>
   snd (generate_hocr (sample_env ''3.04.01'' [] (fails 1 ''Image too large: (70000, 70000)'') no_cleaner)
          ''/tmp/000001.png'' ''/tmp/000001.hocr'' [''eng''] None [] 30 None sample_state) = Inr () \<and>
   snd (generate_hocr (sample_env ''3.04.01'' [] (fails 1 ''read_params_file: parameter not found: foo'') no_cleaner)
          ''/tmp/000001.png'' ''/tmp/000001.hocr'' [''eng''] None [] 30 None sample_state)
     = Inl TesseractConfigError \<and>
   snd (generate_hocr (sample_env ''3.04.01'' [] (fails 1 ''Segmentation fault'') no_cleaner)
          ''/tmp/000001.png'' ''/tmp/000001.hocr'' [''eng''] None [] 30 None sample_state)
     = Inl (CalledProcessError 1 ''Segmentation fault'')"
proof -
  let ?e = "sample_env ''3.04.01'' [] expires no_cleaner"
  have a: "(case None :: int option of
              None \<Rightarrow> Inr [''tesseract'', ''-l'', ''eng'']
            | Some m \<Rightarrow> (case psm ?e of
                          Inl err \<Rightarrow> Inl err
                        | Inr flag \<Rightarrow> Inr ([''tesseract'', ''-l'', ''eng''] @ [flag, str_int m])))
           = (Inr [''tesseract'', ''-l'', ''eng''] :: error + string list)"
    by simp
  have r: "run ?e args 30 (files sample_state) = (Expired, files sample_state)" for args
    by (simp add: run_sample expires_def)
  have rd: "read_file (files sample_state) ''/tmp/000001.png'' = Inr (Image 640 480)"
    by code_simp
  have wr: "write_file (files sample_state) ''/tmp/000001.hocr'' (Text (hocr_template (int 640) (int 480)))
            = Inr ((files sample_state)(''/tmp/000001.hocr'' \<mapsto> Regular (Text (hocr_template (int 640) (int 480)))))"
    by (rule write_file_plain) (simp add: sample_state_def sample_files_def)
  note t = generate_hocr_recovery [OF base_args_sample a refl r refl, THEN conjunct1, rule_format,
      OF disjI1 conjI, OF refl rd wr]
  have v: ?thesis
    by code_simp
  from t v show ?thesis
    by simp
qed

text \<open>
  C3, as stated, fails on an output with both markers: it contains "Image too large", and
  yet the call raises \<^verbatim>\<open>TesseractConfigError\<close> and writes no document.
\<close>

theorem hocr_both_markers_counterexample:
  "sublist ''Image too large'' both_markers \<and>
   snd (generate_hocr (sample_env ''3.04.01'' [] (fails 1 both_markers) no_cleaner)
          ''/tmp/000001.png'' ''/tmp/000001.hocr'' [''eng''] None [] 30 None sample_state)
     = Inl TesseractConfigError \<and>
   files (fst (generate_hocr (sample_env ''3.04.01'' [] (fails 1 both_markers) no_cleaner)
          ''/tmp/000001.png'' ''/tmp/000001.hocr'' [''eng''] None [] 30 None sample_state))
     ''/tmp/000001.hocr'' = None"
  by code_simp

subsection \<open>The cleanup and the recovery policy of \<^verbatim>\<open>generate_pdf\<close>\<close>

lemma render_pdf_run:
  assumes "args = args0 @ [input_image, splitext_root output_pdf, ''pdf''] @ tessconfig"
    and "run e args timeout (files st) = (outcome, f)"
    and "st1 = st\<lparr>logs := logs st @ [DebugArgs args]\<rparr>"
    and "page = page_number e input_image"
  shows "render_pdf e args0 input_image skip_pdf output_pdf text_only tessconfig timeout st =
     (case outcome of
        Expired \<Rightarrow>
          skip_page_result (st1\<lparr>files := f, logs := logs st1 @ page_timedout page\<rparr>)
            text_only skip_pdf output_pdf
      | Completed (NonZeroExit rc out) \<Rightarrow>
          (let st2 = st1\<lparr>files := f, logs := logs st1 @ tesseract_log_output page out\<rparr>
           in if sublist ''read_params_file: parameter not found'' out
              then (st2, Inl TesseractConfigError)
              else if sublist ''Image too large'' out
              then skip_page_result st2 text_only skip_pdf output_pdf
              else (st2, Inl (CalledProcessError rc out)))
      | Completed (Returned stdout) \<Rightarrow>
          (st1\<lparr>files := f, logs := logs st1 @ tesseract_log_output page stdout\<rparr>, Inr ()))"
  using assms
  by (simp add: render_pdf_def Let_def split: timed.splits completed.splits)

lemma generate_pdf_steps:
  assumes "tess_base_args e language engine_mode = Inr base"
    and "(case pagesegmode of
            None \<Rightarrow> Inr base
          | Some m \<Rightarrow> (case psm e of Inl err \<Rightarrow> Inl err | Inr flag \<Rightarrow> Inr (base @ [flag, str_int m])))
         = Inr args0"
    and "system e (textcleaner_command input_image (input_image @ ''-clean.png'')) (files st)
           = (status, f0)"
    and "st1 = st\<lparr>logs := logs st @ [Msg INFO (''Textcleaning '' @ input_image)]\<rparr>"
  shows "generate_pdf e input_image skip_pdf output_pdf language engine_mode text_only tessconfig
           timeout pagesegmode st =
     (case rename f0 (input_image @ ''-clean.png'') input_image of
        Inl err \<Rightarrow> (st1\<lparr>files := f0\<rparr>, Inl err)
      | Inr f1 \<Rightarrow>
          render_pdf e (args0 @ (if text_only then [''-c'', ''textonly_pdf=1''] else []))
            input_image skip_pdf output_pdf text_only tessconfig timeout (st1\<lparr>files := f1\<rparr>))"
  unfolding assms(4) using assms(1-3) by (simp add: generate_pdf_def Let_def split: sum.splits)

lemma skip_page_result_link:
  "\<not> text_only \<Longrightarrow> files s output_pdf = None \<Longrightarrow>
   skip_page_result s text_only skip_pdf output_pdf
     = (s\<lparr>files := (files s)(output_pdf \<mapsto> Link skip_pdf)\<rparr>, Inr ())"
  by (simp add: skip_page_result_def use_skip_page_def symlink_def)

lemma skip_page_result_blank:
  "text_only \<Longrightarrow> read_file (files s) skip_pdf = Inr (Pdf (page0 # ps)) \<Longrightarrow>
   write_file (files s) output_pdf
     (Pdf [\<lparr>page_width = page_width page0, page_height = page_height page0, page_blank = True\<rparr>])
     = Inr f' \<Longrightarrow>
   skip_page_result s text_only skip_pdf output_pdf = (s\<lparr>files := f'\<rparr>, Inr ())"
  by (simp add: skip_page_result_def use_skip_page_def)

text \<open>
  C8, as amended. Once the argument list is built, \<^verbatim>\<open>generate_pdf\<close> runs the cleanup
  filter on the source image and then renames the filter's output path over the source
  image path, without looking at the filter's exit status. Whatever that status is: when a
  file is at the filter's output path after the filter has run, it replaces the source
  image and is gone from its own path before the engine is called; when no file is there,
  the renaming raises \<^verbatim>\<open>FileNotFoundError\<close>, the call ends with that error, and the
  engine is not called.
\<close>

theorem generate_pdf_cleanup:
  assumes "tess_base_args e language engine_mode = Inr base"
    and "(case pagesegmode of
            None \<Rightarrow> Inr base
          | Some m \<Rightarrow> (case psm e of Inl err \<Rightarrow> Inl err | Inr flag \<Rightarrow> Inr (base @ [flag, str_int m])))
         = Inr args0"
    and "system e (textcleaner_command input_image (input_image @ ''-clean.png'')) (files st)
           = (status, f0)"
    and "st1 = st\<lparr>logs := logs st @ [Msg INFO (''Textcleaning '' @ input_image)]\<rparr>"
  shows "(\<forall>n. f0 (input_image @ ''-clean.png'') = Some n \<longrightarrow>
            generate_pdf e input_image skip_pdf output_pdf language engine_mode text_only tessconfig
              timeout pagesegmode st
            = render_pdf e (args0 @ (if text_only then [''-c'', ''textonly_pdf=1''] else []))
                input_image skip_pdf output_pdf text_only tessconfig timeout
                (st1\<lparr>files := (f0(input_image @ ''-clean.png'' := None))(input_image \<mapsto> n)\<rparr>)) \<and>
         (f0 (input_image @ ''-clean.png'') = None \<longrightarrow>
            generate_pdf e input_image skip_pdf output_pdf language engine_mode text_only tessconfig
              timeout pagesegmode st
            = (st1\<lparr>files := f0\<rparr>, Inl FileNotFoundError))"
  by (simp add: generate_pdf_steps [OF assms] rename_def)

theorem generate_pdf_cleanup_witness:
  "snd (generate_pdf broken_cleaner_env ''/tmp/000001.png'' ''/tmp/skip.pdf'' ''/tmp/000001.pdf''
          [''eng''] None False [] 30 None sample_state) = Inr () \<and>
   files (fst (generate_pdf broken_cleaner_env ''/tmp/000001.png'' ''/tmp/skip.pdf'' ''/tmp/000001.pdf''
          [''eng''] None False [] 30 None sample_state)) ''/tmp/000001.png''
     = Some (Regular (Text ''truncated'')) \<and>
   files (fst (generate_pdf broken_cleaner_env ''/tmp/000001.png'' ''/tmp/skip.pdf'' ''/tmp/000001.pdf''
          [''eng''] None False [] 30 None sample_state)) ''/tmp/000001.png-clean.png'' = None"
proof -
  let ?e = broken_cleaner_env
  let ?f0 = "sample_files(''/tmp/000001.png-clean.png'' \<mapsto> Regular (Text ''truncated''))"
  have b: "tess_base_args ?e [''eng''] None = Inr [''tesseract'', ''-l'', ''eng'']"
    by (simp add: broken_cleaner_env_def base_args_sample)
  have a: "(case None :: int option of
              None \<Rightarrow> Inr [''tesseract'', ''-l'', ''eng'']
            | Some m \<Rightarrow> (case psm ?e of
                          Inl err \<Rightarrow> Inl err
                        | Inr flag \<Rightarrow> Inr ([''tesseract'', ''-l'', ''eng''] @ [flag, str_int m])))
           = (Inr [''tesseract'', ''-l'', ''eng''] :: error + string list)"
    by simp
  have s: "system ?e (textcleaner_command ''/tmp/000001.png'' (''/tmp/000001.png'' @ ''-clean.png''))
             (files sample_state) = (1, ?f0)"
    by (simp add: broken_cleaner_env_def sample_env_def cleans_def sample_state_def)
  have c: "?f0 (''/tmp/000001.png'' @ ''-clean.png'') = Some (Regular (Text ''truncated''))"
    by simp
  note t = generate_pdf_cleanup [OF b a s refl, THEN conjunct1, rule_format, OF c]
  have v: ?thesis
    by code_simp
  from t v show ?thesis
    by simp
qed

text \<open>
  C8, as stated, fails when the filter fails without writing its output (here it exits
  with status 127 and changes no file): the call ends with \<^verbatim>\<open>FileNotFoundError\<close>, the
  source image is not replaced, and the engine is not called (nothing but the cleanup
  message is logged).
\<close>

theorem cleanup_missing_output_counterexample:
  "fst (system (sample_env ''4.1.0'' [] expires no_cleaner)
          (textcleaner_command ''/tmp/000001.png'' ''/tmp/000001.png-clean.png'') sample_files) = 127 \<and>
   snd (generate_pdf (sample_env ''4.1.0'' [] expires no_cleaner) ''/tmp/000001.png'' ''/tmp/skip.pdf''
          ''/tmp/000001.pdf'' [''eng''] None False [] 30 None sample_state) = Inl FileNotFoundError \<and>
   files (fst (generate_pdf (sample_env ''4.1.0'' [] expires no_cleaner) ''/tmp/000001.png''
          ''/tmp/skip.pdf'' ''/tmp/000001.pdf'' [''eng''] None False [] 30 None sample_state))
      ''/tmp/000001.png'' = Some (Regular (Image 640 480)) \<and>
   logs (fst (generate_pdf (sample_env ''4.1.0'' [] expires no_cleaner) ''/tmp/000001.png''
          ''/tmp/skip.pdf'' ''/tmp/000001.pdf'' [''eng''] None False [] 30 None sample_state))
     = [Msg INFO ''Textcleaning /tmp/000001.png'']"
  by code_simp

text \<open>
  C4, as amended. Once the cleanup has replaced the source image, the outcome of the
  engine's run decides. On a timeout, or on an exit status other than 0 whose output
  contains "Image too large" and does not contain "read_params_file: parameter not found",
  \<^verbatim>\<open>generate_pdf\<close> returns without error and the fallback page is substituted: when
  \<^verbatim>\<open>text_only\<close> is false, the output path (nothing being there yet) becomes a symbolic link
  to the fallback page, not a copy; when \<^verbatim>\<open>text_only\<close> is true, the output is a new PDF of
  one blank page with the width and height of the first page of the fallback page's file
  (that file being a readable PDF with a page, and the output path writable). On an exit
  status other than 0 whose output contains "read_params_file: parameter not found" it
  raises \<^verbatim>\<open>TesseractConfigError\<close>, whatever else the output contains. On any other exit
  status other than 0 the classified output is logged and the error of the run is raised
  again.
\<close>

theorem generate_pdf_recovery:
  assumes "tess_base_args e language engine_mode = Inr base"
    and "(case pagesegmode of
            None \<Rightarrow> Inr base
          | Some m \<Rightarrow> (case psm e of Inl err \<Rightarrow> Inl err | Inr flag \<Rightarrow> Inr (base @ [flag, str_int m])))
         = Inr args0"
    and "system e (textcleaner_command input_image (input_image @ ''-clean.png'')) (files st)
           = (status, f0)"
    and "rename f0 (input_image @ ''-clean.png'') input_image = Inr f1"
    and "args = (args0 @ (if text_only then [''-c'', ''textonly_pdf=1''] else []))
                @ [input_image, splitext_root output_pdf, ''pdf''] @ tessconfig"
    and "run e args timeout f1 = (outcome, f)"
    and "g = generate_pdf e input_image skip_pdf output_pdf language engine_mode text_only tessconfig
               timeout pagesegmode st"
  shows
    "((outcome = Expired \<or>
       (\<exists>rc out. outcome = Completed (NonZeroExit rc out) \<and> sublist ''Image too large'' out \<and>
                  \<not> sublist ''read_params_file: parameter not found'' out)) \<longrightarrow>
      (\<not> text_only \<and> f output_pdf = None \<longrightarrow>
         snd g = Inr () \<and> files (fst g) = f(output_pdf \<mapsto> Link skip_pdf)) \<and>
      (\<forall>page0 ps f'.
         text_only \<and> read_file f skip_pdf = Inr (Pdf (page0 # ps)) \<and>
         write_file f output_pdf
           (Pdf [\<lparr>page_width = page_width page0, page_height = page_height page0, page_blank = True\<rparr>])
           = Inr f' \<longrightarrow>
         snd g = Inr () \<and> files (fst g) = f' \<and>
         read_file (files (fst g)) output_pdf
           = Inr (Pdf [\<lparr>page_width = page_width page0, page_height = page_height page0,
                        page_blank = True\<rparr>]))) \<and>
     (\<forall>rc out. outcome = Completed (NonZeroExit rc out) \<and>
                sublist ''read_params_file: parameter not found'' out \<longrightarrow>
        snd g = Inl TesseractConfigError) \<and>
     (\<forall>rc out. outcome = Completed (NonZeroExit rc out) \<and>
                \<not> sublist ''read_params_file: parameter not found'' out \<and>
                \<not> sublist ''Image too large'' out \<longrightarrow>
        snd g = Inl (CalledProcessError rc out) \<and>
        logs (fst g) = logs st @ [Msg INFO (''Textcleaning '' @ input_image), DebugArgs args]
                       @ tesseract_log_output (page_number e input_image) out)"
proof -
  let ?st1 = "st\<lparr>logs := logs st @ [Msg INFO (''Textcleaning '' @ input_image)]\<rparr>"
  have r: "run e args timeout (files (?st1\<lparr>files := f1\<rparr>)) = (outcome, f)"
    using assms(6) by simp
  have g: "g = render_pdf e (args0 @ (if text_only then [''-c'', ''textonly_pdf=1''] else []))
            input_image skip_pdf output_pdf text_only tessconfig timeout (?st1\<lparr>files := f1\<rparr>)"
    by (simp add: assms(7) generate_pdf_steps [OF assms(1-3) refl] assms(4))
  note run = trans [OF g render_pdf_run [OF assms(5) r refl refl]]
  let ?rec = "outcome = Expired \<or>
       (\<exists>rc out. outcome = Completed (NonZeroExit rc out) \<and> sublist ''Image too large'' out \<and>
                  \<not> sublist ''read_params_file: parameter not found'' out)"
  have a1: "snd g = Inr () \<and> files (fst g) = f(output_pdf \<mapsto> Link skip_pdf)"
    if ?rec and "\<not> text_only" and "f output_pdf = None"
    using that by (auto simp: run Let_def skip_page_result_link)
  have a2: "snd g = Inr () \<and> files (fst g) = f' \<and>
         read_file (files (fst g)) output_pdf
           = Inr (Pdf [\<lparr>page_width = page_width page0, page_height = page_height page0,
                        page_blank = True\<rparr>])"
    if o: ?rec and t: text_only and rd: "read_file f skip_pdf = Inr (Pdf (page0 # ps))"
      and w: "write_file f output_pdf
           (Pdf [\<lparr>page_width = page_width page0, page_height = page_height page0, page_blank = True\<rparr>])
           = Inr f'" for page0 ps f'
  proof -
    have n: "skip_page_result s text_only skip_pdf output_pdf = (s\<lparr>files := f'\<rparr>, Inr ())"
      if "files s = f" for s
      using that t rd w by (simp add: skip_page_result_blank)
    from o have "snd g = Inr () \<and> files (fst g) = f'"
      by (auto simp: run Let_def n)
    with read_after_write [OF w] show ?thesis
      by simp
  qed
  have b: "snd g = Inl TesseractConfigError"
    if "outcome = Completed (NonZeroExit rc out)"
      and "sublist ''read_params_file: parameter not found'' out" for rc out
    using that by (simp add: run Let_def)
  have c: "snd g = Inl (CalledProcessError rc out) \<and>
        logs (fst g) = logs st @ [Msg INFO (''Textcleaning '' @ input_image), DebugArgs args]
                       @ tesseract_log_output (page_number e input_image) out"
    if "outcome = Completed (NonZeroExit rc out)"
      and "\<not> sublist ''read_params_file: parameter not found'' out"
      and "\<not> sublist ''Image too large'' out" for rc out
    using that by (simp add: run Let_def)
  have p1: "?rec \<longrightarrow>
      (\<not> text_only \<and> f output_pdf = None \<longrightarrow>
         snd g = Inr () \<and> files (fst g) = f(output_pdf \<mapsto> Link skip_pdf)) \<and>
      (\<forall>page0 ps f'.
         text_only \<and> read_file f skip_pdf = Inr (Pdf (page0 # ps)) \<and>
         write_file f output_pdf
           (Pdf [\<lparr>page_width = page_width page0, page_height = page_height page0, page_blank = True\<rparr>])
           = Inr f' \<longrightarrow>
         snd g = Inr () \<and> files (fst g) = f' \<and>
         read_file (files (fst g)) output_pdf
           = Inr (Pdf [\<lparr>page_width = page_width page0, page_height = page_height page0,
                        page_blank = True\<rparr>]))"
  proof (intro impI conjI allI)
    assume ?rec and "\<not> text_only \<and> f output_pdf = None"
    then show "snd g = Inr ()" and "files (fst g) = f(output_pdf \<mapsto> Link skip_pdf)"
      using a1 by simp_all
  next
    fix page0 ps f'
    assume ?rec and "text_only \<and> read_file f skip_pdf = Inr (Pdf (page0 # ps)) \<and>
         write_file f output_pdf
           (Pdf [\<lparr>page_width = page_width page0, page_height = page_height page0, page_blank = True\<rparr>])
           = Inr f'"
    then have "snd g = Inr () \<and> files (fst g) = f' \<and>
         read_file (files (fst g)) output_pdf
           = Inr (Pdf [\<lparr>page_width = page_width page0, page_height = page_height page0,
                        page_blank = True\<rparr>])"
      by (intro a2) simp_all
    then show "snd g = Inr ()" and "files (fst g) = f'"
      and "read_file (files (fst g)) output_pdf
           = Inr (Pdf [\<lparr>page_width = page_width page0, page_height = page_height page0,
                        page_blank = True\<rparr>])"
      by blast+
  qed
  have p2: "\<forall>rc out. outcome = Completed (NonZeroExit rc out) \<and>
                sublist ''read_params_file: parameter not found'' out \<longrightarrow>
        snd g = Inl TesseractConfigError"
    by (intro allI impI, elim conjE, rule b)
  have p3: "\<forall>rc out. outcome = Completed (NonZeroExit rc out) \<and>
                \<not> sublist ''read_params_file: parameter not found'' out \<and>
                \<not> sublist ''Image too large'' out \<longrightarrow>
        snd g = Inl (CalledProcessError rc out) \<and>
        logs (fst g) = logs st @ [Msg INFO (''Textcleaning '' @ input_image), DebugArgs args]
                       @ tesseract_log_output (page_number e input_image) out"
    by (intro allI impI, elim conjE, rule c)
  from p1 p2 p3 show ?thesis
    by (intro conjI)
qed

theorem generate_pdf_recovery_witness:
  "snd (generate_pdf (pdf_env expires) ''/tmp/000001.png'' ''/tmp/skip.pdf'' ''/tmp/000001.pdf''
          [''eng''] None False [] 30 None sample_state) = Inr () \<and>
   files (fst (generate_pdf (pdf_env expires) ''/tmp/000001.png'' ''/tmp/skip.pdf'' ''/tmp/000001.pdf''
          [''eng''] None False [] 30 None sample_state)) ''/tmp/000001.pdf''
     = Some (Link ''/tmp/skip.pdf'') \<and>
   snd (generate_pdf (pdf_env (fails 1 ''Image too large: (70000, 70000)'')) ''/tmp/000001.png''
          ''/tmp/skip.pdf'' ''/tmp/000001.pdf'' [''eng''] None True [] 30 None sample_state) = Inr () \<and>
   files (fst (generate_pdf (pdf_env (fails 1 ''Image too large: (70000, 70000)'')) ''/tmp/000001.png''
          ''/tmp/skip.pdf'' ''/tmp/000001.pdf'' [''eng''] None True [] 30 None sample_state))
      ''/tmp/000001.pdf''
     = Some (Regular (Pdf [\<lparr>page_width = 612, page_height = 792, page_blank = True\<rparr>])) \<and>
   snd (generate_pdf (pdf_env (fails 1 ''read_params_file: parameter not found: foo'')) ''/tmp/000001.png''
          ''/tmp/skip.pdf'' ''/tmp/000001.pdf'' [''eng''] None False [] 30 None sample_state)
     = Inl TesseractConfigError \<and>
   snd (generate_pdf (pdf_env (fails 1 ''Segmentation fault'')) ''/tmp/000001.png''
          ''/tmp/skip.pdf'' ''/tmp/000001.pdf'' [''eng''] None False [] 30 None sample_state)
     = Inl (CalledProcessError 1 ''Segmentation fault'')"
proof -
  let ?e = "pdf_env expires"
  let ?f0 = "sample_files(''/tmp/000001.png-clean.png'' \<mapsto> Regular (Image 640 480))"
  have b: "tess_base_args ?e [''eng''] None = Inr [''tesseract'', ''-l'', ''eng'']"
    by (simp add: pdf_env_def base_args_sample)
  have a: "(case None :: int option of
              None \<Rightarrow> Inr [''tesseract'', ''-l'', ''eng'']
            | Some m \<Rightarrow> (case psm ?e of
                          Inl err \<Rightarrow> Inl err
                        | Inr flag \<Rightarrow> Inr ([''tesseract'', ''-l'', ''eng''] @ [flag, str_int m])))
           = (Inr [''tesseract'', ''-l'', ''eng''] :: error + string list)"
    by simp
  have s: "system ?e (textcleaner_command ''/tmp/000001.png'' (''/tmp/000001.png'' @ ''-clean.png''))
             (files sample_state) = (0, ?f0)"
    by (simp add: pdf_env_def sample_env_def cleans_def sample_state_def)
  have n: "rename ?f0 (''/tmp/000001.png'' @ ''-clean.png'') ''/tmp/000001.png'' = Inr cleaned_files"
    by (simp add: rename_def cleaned_files_def)
  have r: "run ?e args 30 cleaned_files = (Expired, cleaned_files)" for args
    by (simp add: pdf_env_def run_sample expires_def)
  have o: "cleaned_files ''/tmp/000001.pdf'' = None"
    by (simp add: cleaned_files_def sample_files_def)
  note t = generate_pdf_recovery [OF b a s n refl r refl, THEN conjunct1, rule_format,
      OF disjI1, THEN conjunct1, rule_format, OF refl conjI, OF _ o]
  have v: ?thesis
    by code_simp
  from t v show ?thesis
    by simp
qed

text \<open>
  C4, as stated, fails on an output with both markers: it contains "Image too large", and
  yet the call raises \<^verbatim>\<open>TesseractConfigError\<close> and no output is made.
\<close>

theorem pdf_both_markers_counterexample:
  "sublist ''Image too large'' both_markers \<and>
   snd (generate_pdf (pdf_env (fails 1 both_markers)) ''/tmp/000001.png'' ''/tmp/skip.pdf''
          ''/tmp/000001.pdf'' [''eng''] None False [] 30 None sample_state)
     = Inl TesseractConfigError \<and>
   files (fst (generate_pdf (pdf_env (fails 1 both_markers)) ''/tmp/000001.png'' ''/tmp/skip.pdf''
          ''/tmp/000001.pdf'' [''eng''] None False [] 30 None sample_state)) ''/tmp/000001.pdf'' = None"
  by code_simp

end
